theory Spec2Isabelle
  imports Main
begin

section \<open>The Mongo external pillar (salt/pillar/mongo.py)\<close>

text \<open>
  The module reads one node's pillar dictionary from a MongoDB collection. Everything
  the module does itself is modelled below, function by function; what it calls in
  pymongo, \<open>re\<close> and \<open>six\<close> is taken as a parameter, since those libraries are not
  part of the module. Python's \<open>logging\<close> calls are kept: every function returns the
  records it emitted, in order, next to its result. An exception is the value \<open>Inl e\<close>.
\<close>

subsection \<open>Python values and documents\<close>

text \<open>
  A value as the store or the YAML configuration hands it over. \<open>PNative\<close> stands for
  the store's own types (ObjectId, DBRef, datetime and the like), which the module never
  looks into. A dictionary is an association list in insertion order, as Python keeps it.
\<close>

datatype 'n pyval =
    PNone
  | PBool bool
  | PInt int
  | PStr string
  | PNative 'n
  | PList "'n pyval list"
  | PDict "(string \<times> 'n pyval) list"

type_synonym 'n doc = "(string \<times> 'n pyval) list"

text \<open>\<open>d[k] = v\<close>: an existing key keeps its place, a new key goes to the end.\<close>

primrec dict_setitem :: "string \<Rightarrow> 'n pyval \<Rightarrow> 'n doc \<Rightarrow> 'n doc" where
  "dict_setitem k v [] = [(k, v)]"
| "dict_setitem k v (p # ps) =
     (if fst p = k then (k, v) # ps else p # dict_setitem k v ps)"

subsection \<open>Diagnostics and exceptions\<close>

datatype level = DEBUG | INFO | WARNING | ERROR

text \<open>A log record: level, message template and the arguments of its \<open>%s\<close> places.\<close>

type_synonym 'n log_record = "level \<times> string \<times> 'n pyval list"

text \<open>The closing quote of a message template that ends in \<open>'%s'\<close>.\<close>

abbreviation apostrophe :: string where
  "apostrophe \<equiv> [CHR 0x27]"

datatype error =
    ConnectionFailure string
  | OperationFailure string
  | RegexError string

subsection \<open>The collaborators: pymongo, re.sub, six.text_type, the master options\<close>

text \<open>
  What \<open>mdb[collection].aggregate(pipeline)\<close> hands back. pymongo returns a command
  cursor, an object that is always truthy; a stand-in database may return a plain list,
  which is falsy when empty. \<open>list(results)\<close> gives the documents of either.
\<close>

datatype 'n results = CommandCursor "'n doc list" | ResultList "'n doc list"

fun truthy_results :: "'n results \<Rightarrow> bool" where
  "truthy_results (CommandCursor ds) = True"
| "truthy_results (ResultList ds) = (ds \<noteq> [])"

fun list_results :: "'n results \<Rightarrow> 'n doc list" where
  "list_results (CommandCursor ds) = ds"
| "list_results (ResultList ds) = ds"

text \<open>
  A database handle \<open>mdb\<close>: \<open>find_one_op mdb collection filter projection\<close> is
  \<open>mdb[collection].find_one(filter, projection=projection)\<close>, \<open>aggregate_op mdb
  collection pipeline\<close> is \<open>mdb[collection].aggregate(pipeline)\<close>, and \<open>authenticate_op
  mdb user password\<close> is the handle after \<open>mdb.authenticate(user, password)\<close>. Each may
  raise.
\<close>

datatype 'n database = Database
  (find_one_op: "string \<Rightarrow> 'n doc \<Rightarrow> string list option \<Rightarrow> error + 'n doc option")
  (aggregate_op: "string \<Rightarrow> 'n pyval list \<Rightarrow> error + 'n results")
  (authenticate_op: "string \<Rightarrow> string \<Rightarrow> error + 'n database")

text \<open>A connection \<open>conn\<close> maps a database name to its handle (\<open>conn[name]\<close>).\<close>

type_synonym 'n connection = "string \<Rightarrow> 'n database"

text \<open>The module-level \<open>__opts__\<close>, with its defaults.\<close>

datatype master_opts = Opts
  (mongo_db: string)
  (mongo_host: string)
  (mongo_password: string)
  (mongo_port: int)
  (mongo_user: string)

definition default_opts :: master_opts where
  "default_opts = Opts ''salt'' ''salt'' '''' 27017 ''''"

text \<open>
  The surroundings of one call: the options, \<open>pymongo.MongoClient\<close>, \<open>re.sub\<close>
  (pattern, replacement, subject) and \<open>six.text_type\<close>.
\<close>

datatype 'n env = Env
  (opts: master_opts)
  (MongoClient: "string \<Rightarrow> int \<Rightarrow> error + 'n connection")
  (re_sub: "string \<Rightarrow> string \<Rightarrow> string \<Rightarrow> error + string")
  (text_type: "'n pyval \<Rightarrow> string")

subsection \<open>get_connection, authenticate_connection\<close>

definition get_connection ::
  "(string \<Rightarrow> int \<Rightarrow> error + 'n connection) \<Rightarrow> string \<Rightarrow> int \<Rightarrow>
   (error + 'n connection) \<times> 'n log_record list" where
  "get_connection client host port =
     (client host port,
      [(INFO, ''connecting to %s:%s for mongo ext_pillar'', [PStr host, PInt port])])"

definition authenticate_connection ::
  "'n database \<Rightarrow> string \<Rightarrow> string \<Rightarrow> (error + 'n database) \<times> 'n log_record list" where
  "authenticate_connection mdb user password =
     (authenticate_op mdb user password,
      [(DEBUG, ''authenticating as '%s'' @ apostrophe, [PStr user])])"

subsection \<open>get_find_one\<close>

text \<open>\<open>if fields:\<close> holds for a non-empty list only.\<close>

fun truthy_fields :: "string list option \<Rightarrow> bool" where
  "truthy_fields None = False"
| "truthy_fields (Some fs) = (fs \<noteq> [])"

fun fields_value :: "string list option \<Rightarrow> 'n pyval" where
  "fields_value None = PNone"
| "fields_value (Some fs) = PList (map PStr fs)"

text \<open>
  Lines 147 to 151: when the document has a key \<open>_id\<close>, its value is replaced by its
  text form; the dictionary is otherwise left as it is.
\<close>

definition id_to_text :: "('n pyval \<Rightarrow> string) \<Rightarrow> 'n doc \<Rightarrow> 'n doc" where
  "id_to_text to_text result =
     (case map_of result ''_id'' of
        Some v \<Rightarrow> dict_setitem ''_id'' (PStr (to_text v)) result
      | None \<Rightarrow> result)"

text \<open>
  \<open>if result:\<close> holds for a document with at least one key; \<open>None\<close> and the empty
  dictionary both take the \<open>else\<close> branch.
\<close>

definition get_find_one ::
  "('n pyval \<Rightarrow> string) \<Rightarrow> 'n database \<Rightarrow> string \<Rightarrow> string \<Rightarrow> string \<Rightarrow>
   string list option \<Rightarrow> (error + 'n pyval) \<times> 'n log_record list" where
  "get_find_one to_text mdb collection id_field minion_id fields =
     (case find_one_op mdb collection [(id_field, PStr minion_id)] fields of
        Inl e \<Rightarrow> (Inl e, [])
      | Inr None \<Rightarrow>
          (Inr (PDict []),
           [(DEBUG, ''ext_pillar.mongo: no document found in collection %s'',
             [PStr collection])])
      | Inr (Some result) \<Rightarrow>
          if result \<noteq> [] then
            (Inr (PDict (id_to_text to_text result)),
             [if truthy_fields fields
              then (DEBUG, ''ext_pillar.mongo: found document, returning fields '%s'' @ apostrophe,
                    [fields_value fields])
              else (DEBUG, ''ext_pillar.mongo: found document, returning whole doc'', [])])
          else
            (Inr (PDict []),
             [(DEBUG, ''ext_pillar.mongo: no document found in collection %s'',
               [PStr collection])]))"

subsection \<open>get_aggregate\<close>

text \<open>
  Lines 163 to 166: the pipeline starts empty, gets the match stage, then every stage
  of \<open>aggregate\<close> is appended by the loop.
\<close>

definition match_stage :: "string \<Rightarrow> string \<Rightarrow> 'n pyval" where
  "match_stage id_field minion_id = PDict [(''$match'', PDict [(id_field, PStr minion_id)])]"

definition build_pipeline :: "string \<Rightarrow> string \<Rightarrow> 'n pyval list \<Rightarrow> 'n pyval list" where
  "build_pipeline id_field minion_id aggregate =
     foldl (\<lambda>pipeline pipe. pipeline @ [pipe]) ([] @ [match_stage id_field minion_id])
       aggregate"

text \<open>
  Lines 168 to 182, on what the store answered. The branch for more than one document
  logs and has no \<open>return\<close>: the function runs off its end there, which in Python
  yields \<open>None\<close>.
\<close>

definition aggregate_result ::
  "string \<Rightarrow> 'n results \<Rightarrow> (error + 'n pyval) \<times> 'n log_record list" where
  "aggregate_result collection results =
     (if truthy_results results then
        (let results = list_results results in
         if length results = 0 then
           (Inr (PDict []), [(ERROR, ''ext_pillar.mongo: pipeline returned no results'', [])])
         else if length results > 1 then
           (Inr PNone,
            [(ERROR, ''ext_pillar.mongo: pipeline returned more than one result'', [])])
         else (Inr (PDict (results ! 0)), []))
      else
        (Inr (PDict []),
         [(DEBUG, ''ext_pillar.mongo: no response from pipeline %s'', [PStr collection])]))"

definition get_aggregate ::
  "'n database \<Rightarrow> string \<Rightarrow> string \<Rightarrow> string \<Rightarrow> 'n pyval list \<Rightarrow>
   (error + 'n pyval) \<times> 'n log_record list" where
  "get_aggregate mdb collection id_field minion_id aggregate =
     (case aggregate_op mdb collection (build_pipeline id_field minion_id aggregate) of
        Inl e \<Rightarrow> (Inl e, [])
      | Inr results \<Rightarrow> aggregate_result collection results)"

subsection \<open>ext_pillar\<close>

text \<open>
  Lines 221 to 230: connect, select the database, authenticate when both a user and a
  password are configured.
\<close>

definition open_database ::
  "master_opts \<Rightarrow> (string \<Rightarrow> int \<Rightarrow> error + 'n connection) \<Rightarrow>
   (error + 'n database) \<times> 'n log_record list" where
  "open_database os client =
     (case get_connection client (mongo_host os) (mongo_port os) of
        (Inl e, l1) \<Rightarrow> (Inl e, l1)
      | (Inr conn, l1) \<Rightarrow>
          (let l2 = l1 @ [(DEBUG, ''using database '%s'' @ apostrophe, [PStr (mongo_db os)])];
               mdb = conn (mongo_db os)
           in if mongo_user os \<noteq> [] \<and> mongo_password os \<noteq> [] then
                (case authenticate_connection mdb (mongo_user os) (mongo_password os) of
                   (r, l3) \<Rightarrow> (r, l2 @ l3))
              else (Inr mdb, l2)))"

text \<open>
  Lines 231 to 233: \<open>if re_pattern:\<close> holds for a non-empty pattern only; \<open>None\<close> and
  the empty string both leave the minion id as it is.
\<close>

definition lookup_key ::
  "(string \<Rightarrow> string \<Rightarrow> string \<Rightarrow> error + string) \<Rightarrow> string option \<Rightarrow> string \<Rightarrow>
   string \<Rightarrow> error + string" where
  "lookup_key sub re_pattern re_replace minion_id =
     (case re_pattern of
        None \<Rightarrow> Inr minion_id
      | Some p \<Rightarrow> if p \<noteq> [] then sub p re_replace minion_id else Inr minion_id)"

definition lookup_record :: "string \<Rightarrow> string \<Rightarrow> 'n log_record" where
  "lookup_record id_field minion_id =
     (INFO, ''ext_pillar.mongo: looking up pillar def for {'%s': '%s'} in mongo'',
      [PStr id_field, PStr minion_id])"

text \<open>
  The whole call. \<open>pillar\<close> is an argument of the source that the body never reads;
  \<open>aggregate is None\<close> selects the single-document strategy.
\<close>

definition ext_pillar ::
  "'n env \<Rightarrow> string \<Rightarrow> 'n pyval \<Rightarrow> string \<Rightarrow> string \<Rightarrow> string option \<Rightarrow> string \<Rightarrow>
   string list option \<Rightarrow> 'n pyval list option \<Rightarrow> (error + 'n pyval) \<times> 'n log_record list" where
  "ext_pillar e minion_id pillar collection id_field re_pattern re_replace fields aggregate =
     (case open_database (opts e) (MongoClient e) of
        (Inl err, l1) \<Rightarrow> (Inl err, l1)
      | (Inr mdb, l1) \<Rightarrow>
          (case lookup_key (re_sub e) re_pattern re_replace minion_id of
             Inl err \<Rightarrow> (Inl err, l1)
           | Inr minion_id \<Rightarrow>
               (let l2 = l1 @ [lookup_record id_field minion_id] in
                case aggregate of
                  None \<Rightarrow>
                    (case get_find_one (text_type e) mdb collection id_field minion_id fields of
                       (result, l3) \<Rightarrow> (result, l2 @ l3))
                | Some stages \<Rightarrow>
                    (case get_aggregate mdb collection id_field minion_id stages of
                       (result, l3) \<Rightarrow> (result, l2 @ l3)))))"

subsection \<open>A concrete deployment for the examples\<close>

text \<open>
  The closed examples below run the module against a small store that answers as
  pymongo does where the examples need it. An ObjectId is shown by its hexadecimal
  digits, which is also its text form.
\<close>

datatype object_id = ObjectId string

fun example_text_type :: "object_id pyval \<Rightarrow> string" where
  "example_text_type (PNative (ObjectId hex)) = hex"
| "example_text_type (PStr s) = s"
| "example_text_type PNone = ''None''"
| "example_text_type (PBool b) = (if b then ''True'' else ''False'')"
| "example_text_type v = []"

text \<open>
  A filter \<open>{k: v}\<close> selects the documents whose field \<open>k\<close> is \<open>v\<close>. A projection
  given as a list of field names keeps those fields and, as pymongo documents it for a
  list, the \<open>_id\<close> field as well; no projection returns the whole document.
\<close>

definition matches :: "'n doc \<Rightarrow> 'n doc \<Rightarrow> bool" where
  "matches flt d = list_all (\<lambda>p. map_of d (fst p) = Some (snd p)) flt"

definition list_projection :: "string list \<Rightarrow> 'n doc \<Rightarrow> 'n doc" where
  "list_projection fs d = filter (\<lambda>p. fst p = ''_id'' \<or> fst p \<in> set fs) d"

definition store_find_one :: "'n doc list \<Rightarrow> 'n doc \<Rightarrow> string list option \<Rightarrow> 'n doc option" where
  "store_find_one docs flt projection =
     (case filter (matches flt) docs of
        [] \<Rightarrow> None
      | d # ds \<Rightarrow> Some (case projection of None \<Rightarrow> d | Some fs \<Rightarrow> list_projection fs d))"

definition example_docs :: "object_id doc list" where
  "example_docs =
     [[(''_id'', PNative (ObjectId ''5f2b8c1e9d3a4b0012345678'')), (''name'', PStr ''web1''),
       (''role'', PStr ''web''), (''a'', PInt 1), (''b'', PInt 2), (''c'', PInt 3)]]"

text \<open>
  The collection \<open>vm\<close> holds \<open>example_docs\<close>; every other collection is empty. What a
  pipeline computes is the store's business, so the documents it puts out are given.
\<close>

definition example_db :: "object_id doc list \<Rightarrow> object_id database" where
  "example_db pipeline_output =
     Database
       (\<lambda>collection flt projection.
          Inr (if collection = ''vm'' then store_find_one example_docs flt projection else None))
       (\<lambda>collection pipeline. Inr (CommandCursor pipeline_output))
       (\<lambda>user password. Inl (OperationFailure ''auth failed''))"

text \<open>
  \<open>re.sub\<close> for a pattern and a replacement of plain text (nothing that the syntax of
  regular expressions or of replacement templates reads specially): every occurrence of
  the pattern, from the left and without overlap, is replaced; the empty pattern matches
  before every character and at the end.
\<close>

fun replace_plain :: "string \<Rightarrow> string \<Rightarrow> string \<Rightarrow> string" where
  "replace_plain pat repl [] = []"
| "replace_plain pat repl (c # cs) =
     (if take (length pat) (c # cs) = pat
      then repl @ replace_plain pat repl (drop (length pat - 1) cs)
      else c # replace_plain pat repl cs)"

definition sub_plain :: "string \<Rightarrow> string \<Rightarrow> string \<Rightarrow> error + string" where
  "sub_plain pat repl s =
     Inr (if pat = [] then repl @ concat (map (\<lambda>c. c # repl) s)
          else replace_plain pat repl s)"

definition example_env :: "object_id doc list \<Rightarrow> object_id env" where
  "example_env pipeline_output =
     Env default_opts (\<lambda>host port. Inr (\<lambda>name. example_db pipeline_output))
       sub_plain example_text_type"

section \<open>Properties\<close>

subsection \<open>Auxiliary facts\<close>

lemma foldl_append_each: "foldl (\<lambda>pipeline pipe. pipeline @ [pipe]) acc xs = acc @ xs"
  by (induction xs arbitrary: acc) simp_all

lemma build_pipeline_stages: "build_pipeline id_field key stages = match_stage id_field key # stages"
  by (simp add: build_pipeline_def foldl_append_each)

lemma map_of_dict_setitem: "map_of (dict_setitem k v d) = (map_of d)(k \<mapsto> v)"
  by (induction d) (auto simp: fun_eq_iff)

lemma keys_dict_setitem:
  "map_of d k = Some w \<Longrightarrow> map fst (dict_setitem k v d) = map fst d"
  by (induction d) (auto split: if_splits)

lemma id_to_text_keys: "map fst (id_to_text to_text d) = map fst d"
  by (simp add: id_to_text_def keys_dict_setitem split: option.splits)

text \<open>
  Once the database is open and the lookup key is computed, ext_pillar is one of the two
  strategies, with the records of the call in front of the strategy's own.
\<close>

lemma ext_pillar_single:
  assumes "open_database (opts e) (MongoClient e) = (Inr mdb, l1)"
    and "lookup_key (re_sub e) re_pattern re_replace minion_id = Inr key"
  shows "ext_pillar e minion_id pillar collection id_field re_pattern re_replace fields None =
         (fst (get_find_one (text_type e) mdb collection id_field key fields),
          l1 @ lookup_record id_field key #
            snd (get_find_one (text_type e) mdb collection id_field key fields))"
  using assms by (simp add: ext_pillar_def split: prod.splits)

lemma ext_pillar_pipeline:
  assumes "open_database (opts e) (MongoClient e) = (Inr mdb, l1)"
    and "lookup_key (re_sub e) re_pattern re_replace minion_id = Inr key"
  shows "ext_pillar e minion_id pillar collection id_field re_pattern re_replace fields
           (Some stages) =
         (fst (get_aggregate mdb collection id_field key stages),
          l1 @ lookup_record id_field key #
            snd (get_aggregate mdb collection id_field key stages))"
  using assms by (simp add: ext_pillar_def split: prod.splits)

lemma truthy_results_nonempty: "list_results results \<noteq> [] \<Longrightarrow> truthy_results results"
  by (cases results) simp_all

text \<open>The example deployment opens without authentication (no user is configured).\<close>

lemma example_open:
  "open_database (opts (example_env out)) (MongoClient (example_env out)) =
     (Inr (example_db out),
      [(INFO, ''connecting to %s:%s for mongo ext_pillar'', [PStr ''salt'', PInt 27017]),
       (DEBUG, ''using database '%s'' @ apostrophe, [PStr ''salt''])])"
  by (simp add: open_database_def get_connection_def example_env_def default_opts_def)

lemma example_key:
  "lookup_key (re_sub (example_env out)) None re_replace minion_id = Inr minion_id"
  by (simp add: lookup_key_def)

lemma example_aggregate:
  "aggregate_op (example_db out) collection pipeline = Inr (CommandCursor out)"
  by (simp add: example_db_def)

text \<open>
  What get_find_one returns for a document the store found: the document with its
  \<open>_id\<close> as text. An empty document takes the other branch, with the same result.
\<close>

lemma find_one_keys:
  assumes "find_one_op mdb collection [(id_field, PStr key)] fields = Inr (Some d)"
  shows "fst (get_find_one to_text mdb collection id_field key fields) =
           Inr (PDict (id_to_text to_text d))"
  using assms by (cases d) (simp_all add: get_find_one_def id_to_text_def)

lemma example_text: "text_type (example_env out) = example_text_type"
  by (simp add: example_env_def)

lemma example_find_ab:
  "find_one_op (example_db out) ''vm'' [(''name'', PStr ''web1'')] (Some [''a'', ''b'']) =
     Inr (Some [(''_id'', PNative (ObjectId ''5f2b8c1e9d3a4b0012345678'')),
                (''a'', PInt 1), (''b'', PInt 2)])"
  by (simp add: example_db_def store_find_one_def example_docs_def matches_def
      list_projection_def)

subsection \<open>Identifier normalisation (lines 231 to 233)\<close>

text \<open>
  C5, as amended. With no \<open>re_pattern\<close>, or with the empty string as
  \<open>re_pattern\<close>, the lookup key is the minion id itself. With a non-empty
  \<open>re_pattern\<close> the lookup key is whatever \<open>re.sub(re_pattern, re_replace,
  minion_id)\<close> gives, an exception included; in particular, a substitution that leaves
  the minion id as it is (a pattern that matches nowhere) gives the minion id as the key,
  and no error.
\<close>

theorem lookup_key_cases:
  "lookup_key sub None re_replace minion_id = Inr minion_id
   \<and> lookup_key sub (Some []) re_replace minion_id = Inr minion_id
   \<and> (p \<noteq> [] \<longrightarrow> lookup_key sub (Some p) re_replace minion_id = sub p re_replace minion_id)
   \<and> (sub p re_replace minion_id = Inr minion_id \<longrightarrow>
        lookup_key sub (Some p) re_replace minion_id = Inr minion_id)"
  by (simp add: lookup_key_def)

text \<open>
  The theorem at work: no pattern, the empty pattern, a suffix that is stripped and a
  pattern that does not occur.
\<close>

theorem lookup_key_cases_witness:
  "lookup_key sub_plain None [] ''web1-prod'' = Inr ''web1-prod''
   \<and> lookup_key sub_plain (Some []) ''X'' ''web1-prod'' = Inr ''web1-prod''
   \<and> lookup_key sub_plain (Some ''-prod'') [] ''web1-prod'' = Inr ''web1''
   \<and> lookup_key sub_plain (Some ''-test'') [] ''web1-prod'' = Inr ''web1-prod''"
proof -
  have s: "sub_plain ''-prod'' [] ''web1-prod'' = Inr ''web1''"
    by (simp add: sub_plain_def)
  have t: "sub_plain ''-test'' [] ''web1-prod'' = Inr ''web1-prod''"
    by (simp add: sub_plain_def)
  show ?thesis
    using lookup_key_cases [of sub_plain "[]" "''web1-prod''" "''-prod''"]
      lookup_key_cases [of sub_plain "''X''" "''web1-prod''" "''-test''"]
      lookup_key_cases [of sub_plain "[]" "''web1-prod''" "''-test''"] s t
    by simp
qed

text \<open>
  C5 as it is stated fails for the empty pattern, which is present but falsy: the guard
  \<open>if re_pattern:\<close> skips the substitution, so the key stays \<open>ab\<close>, while
  \<open>re.sub('', 'X', 'ab')\<close> is \<open>XaXbX\<close>.
\<close>

theorem empty_pattern_counterexample:
  "lookup_key sub_plain (Some []) ''X'' ''ab'' = Inr ''ab''
   \<and> sub_plain [] ''X'' ''ab'' = Inr ''XaXbX''
   \<and> lookup_key sub_plain (Some []) ''X'' ''ab'' \<noteq> sub_plain [] ''X'' ''ab''"
  by (simp add: lookup_key_def sub_plain_def)

subsection \<open>The single-document strategy\<close>

text \<open>
  C8, as amended. In the single-document strategy with a matching document and
  \<open>fields = ["a", "b"]\<close>, the returned mapping has exactly the keys of the document
  that the store's \<open>find_one\<close> handed back for that projection, in the same order:
  the module itself adds no key and removes none. It holds only \<open>a\<close> and \<open>b\<close>
  when the store returns only those.
\<close>

theorem projection_keys_as_store_returned:
  assumes "open_database (opts e) (MongoClient e) = (Inr mdb, l1)"
    and "lookup_key (re_sub e) re_pattern re_replace minion_id = Inr key"
    and "find_one_op mdb collection [(id_field, PStr key)] (Some [''a'', ''b'']) = Inr (Some d)"
  shows "\<exists>r. fst (ext_pillar e minion_id pillar collection id_field re_pattern re_replace
                 (Some [''a'', ''b'']) None) = Inr (PDict r)
             \<and> map fst r = map fst d"
  by (simp add: ext_pillar_single [OF assms(1,2)] find_one_keys [OF assms(3)] id_to_text_keys)

text \<open>
  The theorem at work on the example store, whose list projection returns \<open>_id\<close>
  next to the requested fields.
\<close>

theorem projection_keys_as_store_returned_witness:
  "\<exists>r. fst (ext_pillar (example_env []) ''web1'' PNone ''vm'' ''name'' None []
              (Some [''a'', ''b'']) None) = Inr (PDict r)
       \<and> map fst r = [''_id'', ''a'', ''b'']"
  using projection_keys_as_store_returned
    [where pillar = PNone, OF example_open example_key example_find_ab]
  by simp

text \<open>
  C8 as it is stated fails against a store that projects as pymongo does for a list of
  field names: the stored document has the fields \<open>_id\<close>, \<open>name\<close>,
  \<open>role\<close>, \<open>a\<close>, \<open>b\<close>, \<open>c\<close>; with
  \<open>fields = ["a", "b"]\<close> the result has the key \<open>_id\<close> as well.
\<close>

theorem projection_returns_id_counterexample:
  "fst (ext_pillar (example_env []) ''web1'' PNone ''vm'' ''name'' None []
          (Some [''a'', ''b'']) None) =
   Inr (PDict [(''_id'', PStr ''5f2b8c1e9d3a4b0012345678''), (''a'', PInt 1), (''b'', PInt 2)])"
  by (simp add: ext_pillar_single [OF example_open example_key]
      find_one_keys [OF example_find_ab] id_to_text_def example_text)

text \<open>
  C10. In the single-document strategy, for any \<open>fields\<close> (a projection or none)
  and any \<open>id_field\<close>: when the document the store returned has a key \<open>_id\<close>,
  the result has the text form of its value there, the same keys in the same order, and
  every other field as it was; when it has no key \<open>_id\<close>, the result is the
  document unchanged.
\<close>

theorem find_one_id_conversion:
  assumes "open_database (opts e) (MongoClient e) = (Inr mdb, l1)"
    and "lookup_key (re_sub e) re_pattern re_replace minion_id = Inr key"
    and "find_one_op mdb collection [(id_field, PStr key)] fields = Inr (Some d)"
  shows "\<exists>r. fst (ext_pillar e minion_id pillar collection id_field re_pattern re_replace
                 fields None) = Inr (PDict r)
             \<and> (case map_of d ''_id'' of
                  Some v \<Rightarrow>
                    map_of r ''_id'' = Some (PStr (text_type e v)) \<and> map fst r = map fst d
                    \<and> (\<forall>k. k \<noteq> ''_id'' \<longrightarrow> map_of r k = map_of d k)
                | None \<Rightarrow> r = d)"
proof -
  let ?r = "id_to_text (text_type e) d"
  have "fst (ext_pillar e minion_id pillar collection id_field re_pattern re_replace
               fields None) = Inr (PDict ?r)"
    by (simp add: ext_pillar_single [OF assms(1,2)] find_one_keys [OF assms(3)])
  moreover have "case map_of d ''_id'' of
                  Some v \<Rightarrow>
                    map_of ?r ''_id'' = Some (PStr (text_type e v)) \<and> map fst ?r = map fst d
                    \<and> (\<forall>k. k \<noteq> ''_id'' \<longrightarrow> map_of ?r k = map_of d k)
                | None \<Rightarrow> ?r = d"
    by (simp add: id_to_text_keys split: option.splits)
       (simp add: id_to_text_def map_of_dict_setitem)
  ultimately show ?thesis by blast
qed

text \<open>
  The theorem at work: the lookup is by \<open>name\<close>, not by \<open>_id\<close>, with the
  projection \<open>["a", "b"]\<close>; the ObjectId comes back as text and \<open>a\<close> as it
  was.
\<close>

theorem find_one_id_conversion_witness:
  "\<exists>r. fst (ext_pillar (example_env []) ''web1'' PNone ''vm'' ''name'' None []
              (Some [''a'', ''b'']) None) = Inr (PDict r)
       \<and> map_of r ''_id'' = Some (PStr ''5f2b8c1e9d3a4b0012345678'')
       \<and> map fst r = [''_id'', ''a'', ''b'']
       \<and> map_of r ''a'' = Some (PInt 1)"
proof -
  let ?d = "[(''_id'', PNative (ObjectId ''5f2b8c1e9d3a4b0012345678'')),
             (''a'', PInt 1), (''b'', PInt 2)] :: object_id doc"
  have d: "map_of ?d ''_id'' = Some (PNative (ObjectId ''5f2b8c1e9d3a4b0012345678''))"
    by simp
  from find_one_id_conversion
    [where pillar = PNone,
     OF example_open [of "[]"] example_key [of "[]" "[]" "''web1''"] example_find_ab [of "[]"]]
  obtain r where rc:
    "fst (ext_pillar (example_env []) ''web1'' PNone ''vm'' ''name'' None []
            (Some [''a'', ''b'']) None) = Inr (PDict r)
     \<and> (case map_of ?d ''_id'' of
          Some v \<Rightarrow>
            map_of r ''_id'' = Some (PStr (text_type (example_env []) v))
            \<and> map fst r = map fst ?d
            \<and> (\<forall>k. k \<noteq> ''_id'' \<longrightarrow> map_of r k = map_of ?d k)
        | None \<Rightarrow> r = ?d)" ..
  note c = rc [THEN conjunct2, unfolded d option.case]
  from c [THEN conjunct1] have i: "map_of r ''_id'' = Some (PStr ''5f2b8c1e9d3a4b0012345678'')"
    by (simp add: example_text)
  from c [THEN conjunct2, THEN conjunct1] have k: "map fst r = [''_id'', ''a'', ''b'']"
    by simp
  from c [THEN conjunct2, THEN conjunct2, THEN spec, of "''a''"]
  have a: "map_of r ''a'' = Some (PInt 1)"
    by simp
  from rc [THEN conjunct1] i k a show ?thesis
    by (intro exI [of _ r] conjI)
qed

text \<open>
  C3. When the store yields no matching document, the call returns the empty mapping and
  raises nothing, under both strategies: \<open>find_one\<close> answering \<open>None\<close> in
  the single-document strategy, the pipeline putting out no document in the pipeline
  strategy (be the answer a cursor or an empty list).
\<close>

theorem no_match_gives_empty_mapping:
  assumes "open_database (opts e) (MongoClient e) = (Inr mdb, l1)"
    and "lookup_key (re_sub e) re_pattern re_replace minion_id = Inr key"
    and "case aggregate of
           None \<Rightarrow> find_one_op mdb collection [(id_field, PStr key)] fields = Inr None
         | Some stages \<Rightarrow>
             (\<exists>results. aggregate_op mdb collection (match_stage id_field key # stages) =
                          Inr results \<and> list_results results = [])"
  shows "fst (ext_pillar e minion_id pillar collection id_field re_pattern re_replace fields
                aggregate) = Inr (PDict [])"
proof (cases aggregate)
  case None
  with assms(3) show ?thesis
    by (simp add: ext_pillar_single [OF assms(1,2)] get_find_one_def)
next
  case (Some stages)
  with assms(3) obtain results where
    "aggregate_op mdb collection (match_stage id_field key # stages) = Inr results"
    and "list_results results = []" by auto
  then have "fst (get_aggregate mdb collection id_field key stages) = Inr (PDict [])"
    by (simp add: get_aggregate_def build_pipeline_stages aggregate_result_def)
  with Some show ?thesis
    by (simp add: ext_pillar_pipeline [OF assms(1,2)])
qed

text \<open>
  The theorem at work, once for each strategy: no document of the example store is named
  \<open>web9\<close>, and the pipeline puts out nothing.
\<close>

theorem no_match_gives_empty_mapping_witness:
  "fst (ext_pillar (example_env []) ''web9'' PNone ''vm'' ''name'' None [] None None) =
     Inr (PDict [])
   \<and> fst (ext_pillar (example_env []) ''web9'' PNone ''vm'' ''name'' None [] None (Some [])) =
     Inr (PDict [])"
proof -
  have f: "case None of
             None \<Rightarrow> find_one_op (example_db []) ''vm'' [(''name'', PStr ''web9'')] None =
                      Inr None
           | Some stages \<Rightarrow>
               (\<exists>results. aggregate_op (example_db []) ''vm''
                             (match_stage ''name'' ''web9'' # stages) = Inr results \<and>
                          list_results results = [])"
    by (simp add: example_db_def store_find_one_def example_docs_def matches_def)
  have a: "case Some [] of
             None \<Rightarrow> find_one_op (example_db []) ''vm'' [(''name'', PStr ''web9'')] None =
                      Inr None
           | Some stages \<Rightarrow>
               (\<exists>results. aggregate_op (example_db []) ''vm''
                             (match_stage ''name'' ''web9'' # stages) = Inr results \<and>
                          list_results results = [])"
    by (simp add: example_aggregate)
  show ?thesis
    using no_match_gives_empty_mapping [where pillar = PNone, OF example_open example_key f]
      no_match_gives_empty_mapping [where pillar = PNone, OF example_open example_key a]
    by simp
qed

subsection \<open>The pipeline strategy\<close>

text \<open>
  C6. The pipeline handed to the store is the match stage \<open>{"$match": {id_field:
  key}}\<close> followed by the stages of \<open>aggregate\<close> in the order given, each as it
  was given; it is the one query get_aggregate makes, and the result is read off the
  store's answer to it.
\<close>

theorem pipeline_stage_sequence:
  "build_pipeline id_field key stages =
     PDict [(''$match'', PDict [(id_field, PStr key)])] # stages
   \<and> get_aggregate mdb collection id_field key stages =
     (case aggregate_op mdb collection
             (PDict [(''$match'', PDict [(id_field, PStr key)])] # stages) of
        Inl err \<Rightarrow> (Inl err, [])
      | Inr results \<Rightarrow> aggregate_result collection results)"
  by (simp add: get_aggregate_def build_pipeline_stages match_stage_def)

text \<open>
  C7. When the pipeline puts out exactly one document, that document is the result, as
  the store produced it, and the strategy logs nothing of its own.
\<close>

theorem pipeline_single_result:
  assumes "open_database (opts e) (MongoClient e) = (Inr mdb, l1)"
    and "lookup_key (re_sub e) re_pattern re_replace minion_id = Inr key"
    and "aggregate_op mdb collection (match_stage id_field key # stages) = Inr results"
    and "list_results results = [d]"
  shows "ext_pillar e minion_id pillar collection id_field re_pattern re_replace fields
           (Some stages) = (Inr (PDict d), l1 @ [lookup_record id_field key])"
proof -
  from assms(4) have "truthy_results results" by (simp add: truthy_results_nonempty)
  with assms(3,4) have
    "get_aggregate mdb collection id_field key stages = (Inr (PDict d), [])"
    by (simp add: get_aggregate_def build_pipeline_stages aggregate_result_def)
  then show ?thesis
    by (simp add: ext_pillar_pipeline [OF assms(1,2)])
qed

text \<open>
  The theorem at work: a pipeline with one stage of the caller's that puts out
  \<open>{"x": 1}\<close>.
\<close>

theorem pipeline_single_result_witness:
  "ext_pillar (example_env [[(''x'', PInt 1)]]) ''web1'' PNone ''pillar'' ''_id'' None [] None
     (Some [PDict [(''$project'', PDict [(''x'', PInt 1)])]]) =
   (Inr (PDict [(''x'', PInt 1)]),
    [(INFO, ''connecting to %s:%s for mongo ext_pillar'', [PStr ''salt'', PInt 27017]),
     (DEBUG, ''using database '%s'' @ apostrophe, [PStr ''salt'']),
     lookup_record ''_id'' ''web1''])"
proof -
  have n: "list_results (CommandCursor [[(''x'', PInt 1)]] :: object_id results) =
             [[(''x'', PInt 1)]]"
    by simp
  show ?thesis
    using pipeline_single_result
      [where pillar = PNone and fields = None, OF example_open example_key example_aggregate n]
    by simp
qed

text \<open>
  C1, as amended. When the pipeline puts out more than one document, the call raises
  nothing and the strategy emits exactly one diagnostic, at error level:
  \<open>ext_pillar.mongo: pipeline returned more than one result\<close>. Which value comes
  back is left open here: that branch of get_aggregate has no \<open>return\<close>.
\<close>

theorem pipeline_many_results_error_record:
  assumes "open_database (opts e) (MongoClient e) = (Inr mdb, l1)"
    and "lookup_key (re_sub e) re_pattern re_replace minion_id = Inr key"
    and "aggregate_op mdb collection (match_stage id_field key # stages) = Inr results"
    and "length (list_results results) > 1"
  shows "\<exists>r. ext_pillar e minion_id pillar collection id_field re_pattern re_replace fields
               (Some stages) =
             (Inr r,
              l1 @ [lookup_record id_field key,
                    (ERROR, ''ext_pillar.mongo: pipeline returned more than one result'', [])])"
proof -
  from assms(4) have "list_results results \<noteq> []" by auto
  then have t: "truthy_results results" by (rule truthy_results_nonempty)
  have "get_aggregate mdb collection id_field key stages =
        (Inr PNone, [(ERROR, ''ext_pillar.mongo: pipeline returned more than one result'', [])])"
    using assms(3,4) t \<open>list_results results \<noteq> []\<close>
    by (simp add: get_aggregate_def build_pipeline_stages aggregate_result_def Let_def)
  then show ?thesis
    by (simp add: ext_pillar_pipeline [OF assms(1,2)])
qed

text \<open>
  The theorem at work: a pipeline that puts out \<open>{"x": 1}\<close> and
  \<open>{"x": 2}\<close>.
\<close>

theorem pipeline_many_results_error_record_witness:
  "\<exists>r. ext_pillar (example_env [[(''x'', PInt 1)], [(''x'', PInt 2)]]) ''web1'' PNone
          ''pillar'' ''_id'' None [] None (Some []) =
        (Inr r,
         [(INFO, ''connecting to %s:%s for mongo ext_pillar'', [PStr ''salt'', PInt 27017]),
          (DEBUG, ''using database '%s'' @ apostrophe, [PStr ''salt'']),
          lookup_record ''_id'' ''web1'',
          (ERROR, ''ext_pillar.mongo: pipeline returned more than one result'', [])])"
proof -
  have n: "length (list_results (CommandCursor [[(''x'', PInt 1)], [(''x'', PInt 2)]] ::
             object_id results)) > 1"
    by simp
  show ?thesis
    using pipeline_many_results_error_record
      [where pillar = PNone and fields = None and stages = "[]",
       OF example_open example_key example_aggregate n]
    by simp
qed

text \<open>
  C1 as it is stated fails on that input: the call returns \<open>None\<close>, not the first
  document \<open>{"x": 1}\<close>, and the records it emits are at the levels info, debug,
  info and error, none at warning level.
\<close>

theorem pipeline_many_results_counterexample:
  "fst (ext_pillar (example_env [[(''x'', PInt 1)], [(''x'', PInt 2)]]) ''web1'' PNone
          ''pillar'' ''_id'' None [] None (Some [])) = Inr PNone
   \<and> fst (ext_pillar (example_env [[(''x'', PInt 1)], [(''x'', PInt 2)]]) ''web1'' PNone
          ''pillar'' ''_id'' None [] None (Some [])) \<noteq> Inr (PDict [(''x'', PInt 1)])
   \<and> map fst (snd (ext_pillar (example_env [[(''x'', PInt 1)], [(''x'', PInt 2)]]) ''web1''
          PNone ''pillar'' ''_id'' None [] None (Some []))) = [INFO, DEBUG, INFO, ERROR]"
  by (simp add: ext_pillar_pipeline [OF example_open example_key] get_aggregate_def
      example_aggregate aggregate_result_def lookup_record_def)

text \<open>
  C2 does not hold in the pipeline strategy. get_find_one turns \<open>_id\<close> into
  text (lines 147 to 151); get_aggregate returns \<open>results[0]\<close> as the store
  produced it. A pipeline that puts out one document whose \<open>_id\<close> is an ObjectId
  gives a result whose \<open>_id\<close> is still that ObjectId.
\<close>

theorem pipeline_result_keeps_native_id:
  "fst (ext_pillar
          (example_env [[(''_id'', PNative (ObjectId ''5f2b8c1e9d3a4b0012345678'')),
                         (''x'', PInt 1)]])
          ''web1'' PNone ''pillar'' ''_id'' None [] None (Some [])) =
   Inr (PDict [(''_id'', PNative (ObjectId ''5f2b8c1e9d3a4b0012345678'')), (''x'', PInt 1)])"
  by (simp add: ext_pillar_pipeline [OF example_open example_key] get_aggregate_def
      example_aggregate aggregate_result_def)

subsection \<open>Arguments that do not matter\<close>

text \<open>
  C4. When \<open>aggregate\<close> is supplied, \<open>fields\<close> has no effect: result and
  diagnostics are those of the call without \<open>fields\<close>.
\<close>

theorem fields_ignored_with_aggregate:
  "ext_pillar e minion_id pillar collection id_field re_pattern re_replace fields (Some stages) =
   ext_pillar e minion_id pillar collection id_field re_pattern re_replace None (Some stages)"
  by (simp add: ext_pillar_def split: prod.splits sum.splits)

text \<open>
  C9. The \<open>pillar\<close> argument has no effect: two calls that differ in it alone
  return the same result and emit the same diagnostics.
\<close>

theorem pillar_argument_unused:
  "ext_pillar e minion_id pillar collection id_field re_pattern re_replace fields aggregate =
   ext_pillar e minion_id pillar' collection id_field re_pattern re_replace fields aggregate"
  by (simp add: ext_pillar_def split: prod.splits sum.splits)

end
